theory Spec2Isabelle
  imports Complex_Main
begin

section \<open>Numbers and vectors\<close>

text \<open>
  The program is \<^verbatim>\<open>src/script.js\<close>. A JavaScript number is modelled as a \<^typ>\<open>real\<close>:
  the arithmetic of the program is followed operation by operation, in the order of the
  source, but rounding, NaN and the infinities of IEEE doubles are outside the model
  (a division by zero, which would produce them, is made visible by \<open>js_div\<close> below).
  Counters that the program only increments and compares (the frame counter, the level
  number, the trail bound) are natural numbers.

  Naming: a method \<^verbatim>\<open>C.m\<close> of the source is the constant \<open>C_m\<close>; a field keeps its name,
  with the class as a prefix where two classes share it (\<^verbatim>\<open>pos\<close>, \<^verbatim>\<open>radius\<close>, \<^verbatim>\<open>color\<close>).
  The fields \<^verbatim>\<open>x\<close> and \<^verbatim>\<open>y\<close> of \<^verbatim>\<open>Vector2\<close> are \<open>vx\<close> and \<open>vy\<close>.
\<close>

record Vector2 =
  vx :: real
  vy :: real

definition Vector2_new :: "real \<Rightarrow> real \<Rightarrow> Vector2" where
  "Vector2_new a b = \<lparr>vx = a, vy = b\<rparr>"

definition Vector2_add :: "Vector2 \<Rightarrow> Vector2 \<Rightarrow> Vector2" where
  "Vector2_add this v = Vector2_new (vx this + vx v) (vy this + vy v)"

definition Vector2_sub :: "Vector2 \<Rightarrow> Vector2 \<Rightarrow> Vector2" where
  "Vector2_sub this v = Vector2_new (vx this - vx v) (vy this - vy v)"

definition Vector2_mult :: "Vector2 \<Rightarrow> real \<Rightarrow> Vector2" where
  "Vector2_mult this n = Vector2_new (vx this * n) (vy this * n)"

definition Vector2_mag :: "Vector2 \<Rightarrow> real" where
  "Vector2_mag this = sqrt (vx this * vx this + vy this * vy this)"

definition Vector2_normalize :: "Vector2 \<Rightarrow> Vector2" where
  "Vector2_normalize this =
     (let m = Vector2_mag this
      in if m = 0 then Vector2_new 0 0 else Vector2_new (vx this / m) (vy this / m))"

text \<open>
  In HOL \<open>a / 0 = 0\<close>, so the definition above cannot tell whether the branch \<^verbatim>\<open>m === 0\<close>
  is there. JavaScript's \<^verbatim>\<open>/\<close> with divisor 0 yields NaN or an infinity, no real number:
  \<open>js_div\<close> gives \<open>None\<close> for that. \<open>Vector2_normalize_checked\<close> is \<^verbatim>\<open>normalize\<close> once
  more, line by line, with its two divisions made with \<open>js_div\<close>: its result is \<open>None\<close>
  exactly when one of them divides by zero.
\<close>

definition js_div :: "real \<Rightarrow> real \<Rightarrow> real option" where
  "js_div a b = (if b = 0 then None else Some (a / b))"

definition Vector2_normalize_checked :: "Vector2 \<Rightarrow> Vector2 option" where
  "Vector2_normalize_checked this =
     (let m = Vector2_mag this
      in if m = 0 then Some (Vector2_new 0 0)
         else (case js_div (vx this) m of
                 None \<Rightarrow> None
               | Some a \<Rightarrow>
                   (case js_div (vy this) m of
                      None \<Rightarrow> None
                    | Some b \<Rightarrow> Some (Vector2_new a b))))"

definition Vector2_dist :: "Vector2 \<Rightarrow> Vector2 \<Rightarrow> real" where
  "Vector2_dist v1 v2 = Vector2_mag (Vector2_sub v1 v2)"

definition Vector2_copy :: "Vector2 \<Rightarrow> Vector2" where
  "Vector2_copy this = Vector2_new (vx this) (vy this)"

text \<open>
  \<^verbatim>\<open>Vector2.div\<close> has no caller in the program and is left out: in JavaScript a division
  by zero yields an infinity or NaN, which a real number cannot express.
\<close>

section \<open>Entities\<close>

datatype GAME_STATE = IDLE | FLYING | ENDED

record Ship =
  ship_pos :: Vector2
  ship_vel :: Vector2
  ship_acc :: Vector2
  ship_radius :: real
  ship_color :: string
  trail :: "Vector2 list"
  maxTrailLength :: nat

record Planet =
  planet_pos :: Vector2
  planet_radius :: real
  gravity :: real
  influenceRadius :: real
  planet_color :: string

record Goal =
  goal_pos :: Vector2
  goal_radius :: real
  pulse :: real

definition Ship_new :: "real \<Rightarrow> real \<Rightarrow> Ship" where
  "Ship_new a b =
     \<lparr>ship_pos = Vector2_new a b, ship_vel = Vector2_new 0 0, ship_acc = Vector2_new 0 0,
      ship_radius = 8, ship_color = ''#ffffff'', trail = [], maxTrailLength = 20\<rparr>"

definition Planet_new :: "real \<Rightarrow> real \<Rightarrow> real \<Rightarrow> real \<Rightarrow> real \<Rightarrow> Planet" where
  "Planet_new a b r g ir =
     \<lparr>planet_pos = Vector2_new a b, planet_radius = r, gravity = g, influenceRadius = ir,
      planet_color = ''#4cc9f0''\<rparr>"

definition Goal_new :: "real \<Rightarrow> real \<Rightarrow> real \<Rightarrow> Goal" where
  "Goal_new a b r = \<lparr>goal_pos = Vector2_new a b, goal_radius = r, pulse = 0\<rparr>"

section \<open>Live stepping: \<^verbatim>\<open>Ship.update\<close>\<close>

definition Ship_applyForce :: "Ship \<Rightarrow> Vector2 \<Rightarrow> Ship" where
  "Ship_applyForce this force = this\<lparr>ship_acc := Vector2_add (ship_acc this) force\<rparr>"

text \<open>The loop \<^verbatim>\<open>for (let planet of planets)\<close> of \<^verbatim>\<open>Ship.update\<close> (lines 45 to 57).\<close>

fun Ship_update_gravity :: "Planet list \<Rightarrow> Ship \<Rightarrow> Ship" where
  "Ship_update_gravity [] this = this"
| "Ship_update_gravity (planet # rest) this =
     (let dir = Vector2_sub (planet_pos planet) (ship_pos this);
          d = Vector2_mag dir;
          epsilon = 5
      in Ship_update_gravity rest
           (if d < influenceRadius planet
            then (let strength = gravity planet / (d + epsilon);
                      force = Vector2_mult (Vector2_normalize dir) strength
                  in Ship_applyForce this force)
            else this))"

text \<open>
  \<^verbatim>\<open>Ship.update(dt, planets)\<close>. The source reads the global \<^verbatim>\<open>GlobalGame.frameCount\<close> for the
  trail; the model takes it as the argument \<open>frameCount\<close>.
\<close>

definition Ship_update :: "nat \<Rightarrow> real \<Rightarrow> Planet list \<Rightarrow> Ship \<Rightarrow> Ship" where
  "Ship_update frameCount dt planets this =
     (let s1 = this\<lparr>ship_acc := Vector2_new 0 0\<rparr>;
          s2 = Ship_update_gravity planets s1;
          s3 = s2\<lparr>ship_vel := Vector2_add (ship_vel s2) (Vector2_mult (ship_acc s2) dt)\<rparr>;
          s4 = s3\<lparr>ship_pos := Vector2_add (ship_pos s3) (Vector2_mult (ship_vel s3) dt)\<rparr>
      in if frameCount mod 5 = 0
         then (let s5 = s4\<lparr>trail := trail s4 @ [Vector2_copy (ship_pos s4)]\<rparr>
               in if length (trail s5) > maxTrailLength s5
                  then s5\<lparr>trail := tl (trail s5)\<rparr>
                  else s5)
         else s4)"

section \<open>Prediction: the loops of \<^verbatim>\<open>Game.drawTrajectory\<close>\<close>

text \<open>
  The calls on the canvas context are kept as a list of commands, in the order the
  program issues them.
\<close>

datatype ctx_cmd =
  BeginPath
| MoveTo real real
| LineTo real real
| StrokeStyle string
| SetLineDash "real list"
| Stroke

text \<open>The inner loop over the planets that accumulates \<^verbatim>\<open>simAcc\<close> (lines 399 to 408).\<close>

fun drawTrajectory_gravity :: "Planet list \<Rightarrow> Vector2 \<Rightarrow> Vector2 \<Rightarrow> Vector2" where
  "drawTrajectory_gravity [] simPos simAcc = simAcc"
| "drawTrajectory_gravity (planet # rest) simPos simAcc =
     (let dir = Vector2_sub (planet_pos planet) simPos;
          d = Vector2_mag dir;
          epsilon = 5
      in drawTrajectory_gravity rest simPos
           (if d < influenceRadius planet
            then (let strength = gravity planet / (d + epsilon);
                      force = Vector2_mult (Vector2_normalize dir) strength
                  in Vector2_add simAcc force)
            else simAcc))"

text \<open>
  The second inner loop (lines 415 to 417): it has no body but a \<^verbatim>\<open>break\<close>. Its only
  result is whether it was left by the \<^verbatim>\<open>break\<close>, and the caller does not use it.
\<close>

fun drawTrajectory_scan :: "Planet list \<Rightarrow> Vector2 \<Rightarrow> bool" where
  "drawTrajectory_scan [] simPos = False"
| "drawTrajectory_scan (p # rest) simPos =
     (if Vector2_dist simPos (planet_pos p) < planet_radius p then True
      else drawTrajectory_scan rest simPos)"

text \<open>
  The loop \<^verbatim>\<open>for (let i = 0; i < steps; i++)\<close>; the first argument is the number of
  iterations still to run, \<^verbatim>\<open>steps - i\<close>. The state is \<^verbatim>\<open>(simPos, simVel, simAcc)\<close> and the
  commands issued so far.
\<close>

fun drawTrajectory_loop ::
  "nat \<Rightarrow> real \<Rightarrow> Planet list \<Rightarrow> Vector2 \<times> Vector2 \<times> Vector2 \<Rightarrow> ctx_cmd list
     \<Rightarrow> (Vector2 \<times> Vector2 \<times> Vector2) \<times> ctx_cmd list" where
  "drawTrajectory_loop 0 simDt planets sim ctx = (sim, ctx)"
| "drawTrajectory_loop (Suc n) simDt planets (simPos, simVel, simAcc) ctx =
     (let simAcc1 = drawTrajectory_gravity planets simPos (Vector2_new 0 0);
          simVel1 = Vector2_add simVel (Vector2_mult simAcc1 simDt);
          simPos1 = Vector2_add simPos (Vector2_mult simVel1 simDt);
          ctx1 = ctx @ [LineTo (vx simPos1) (vy simPos1)];
          left_by_break = drawTrajectory_scan planets simPos1
      in drawTrajectory_loop n simDt planets (simPos1, simVel1, simAcc1) ctx1)"

section \<open>The game\<close>

text \<open>
  A handler that dereferences \<^verbatim>\<open>null\<close> or calls \<^verbatim>\<open>undefined\<close> throws a \<^verbatim>\<open>TypeError\<close>. The
  browser drops the exception, and the assignments made before it stay. A handler
  therefore returns \<open>Inr\<close> of the new game, or \<open>Inl\<close> of the error with the game as the
  throw left it.
\<close>

datatype error = TypeError

type_synonym 'a result = "(error \<times> 'a) + 'a"

record level_config =
  cfg_ship :: Vector2
  cfg_goal_pos :: Vector2
  cfg_goal_r :: real
  cfg_planets :: "Planet list"

text \<open>The two functions that the program assigns to \<^verbatim>\<open>retryBtn.onclick\<close>.\<close>

datatype click_handler = Retry_level | Next_level

text \<open>
  The fields of \<^verbatim>\<open>Game\<close>. Of the page only what the program writes is kept: the size of
  the canvas, the text of \<^verbatim>\<open>uiStage\<close> (a level number), the text, colour and
  \<^verbatim>\<open>hidden\<close> class of \<^verbatim>\<open>uiMessages\<close>, the text and \<^verbatim>\<open>onclick\<close> of \<^verbatim>\<open>retryBtn\<close>.
\<close>

record Game =
  canvas_width :: real
  canvas_height :: real
  uiStage_innerText :: nat
  uiMessages_innerText :: string
  uiMessages_color :: string
  uiMessages_hidden :: bool
  retryBtn_innerText :: string
  retryBtn_onclick :: "click_handler option"
  currentLevel :: nat
  isDragging :: bool
  dragStart :: "Vector2 option"
  dragCurrent :: "Vector2 option"
  ship :: "Ship option"
  planets :: "Planet list"
  goal :: "Goal option"
  state :: GAME_STATE
  levels :: "nat \<Rightarrow> (real \<Rightarrow> real \<Rightarrow> level_config) option"
  lastTime :: real
  frameCount :: nat

text \<open>The table \<^verbatim>\<open>this.levels\<close> of the constructor (lines 215 to 240).\<close>

definition level_1 :: "real \<Rightarrow> real \<Rightarrow> level_config" where
  "level_1 w h =
     \<lparr>cfg_ship = Vector2_new 100 (h - 100),
      cfg_goal_pos = Vector2_new (w - 100) 100, cfg_goal_r = 30,
      cfg_planets = [Planet_new (w / 2) (h / 2) 40 5000 300]\<rparr>"

definition level_2 :: "real \<Rightarrow> real \<Rightarrow> level_config" where
  "level_2 w h =
     \<lparr>cfg_ship = Vector2_new 100 (h / 2),
      cfg_goal_pos = Vector2_new (w - 100) (h / 2), cfg_goal_r = 30,
      cfg_planets = [Planet_new (w / 3) (h / 2 - 150) 35 4000 250,
                     Planet_new (2 * w / 3) (h / 2 + 150) 35 4000 250]\<rparr>"

definition level_3 :: "real \<Rightarrow> real \<Rightarrow> level_config" where
  "level_3 w h =
     \<lparr>cfg_ship = Vector2_new 100 (h / 2),
      cfg_goal_pos = Vector2_new (w - 100) (h / 2), cfg_goal_r = 25,
      cfg_planets = [Planet_new (w / 2) (h / 2) 60 8000 400,
                     Planet_new (w - 200) (h / 2 - 150) 20 2000 150,
                     Planet_new (w - 200) (h / 2 + 150) 20 2000 150]\<rparr>"

definition builtin_levels :: "nat \<Rightarrow> (real \<Rightarrow> real \<Rightarrow> level_config) option" where
  "builtin_levels n =
     (if n = 1 then Some level_1
      else if n = 2 then Some level_2
      else if n = 3 then Some level_3
      else None)"

text \<open>
  \<^verbatim>\<open>Game.initLevel(levelNum)\<close>. A level number without an entry falls back to level 1; if
  the table has no level 1 either, calling \<^verbatim>\<open>undefined\<close> throws after \<^verbatim>\<open>currentLevel\<close> was
  set. Nothing in the function inspects the configuration it installs.
\<close>

definition Game_initLevel :: "nat \<Rightarrow> Game \<Rightarrow> Game result" where
  "Game_initLevel levelNum0 this =
     (let levelNum = (if levels this levelNum0 = None then 1 else levelNum0);
          g1 = (if levels this levelNum0 = None then this\<lparr>currentLevel := 1\<rparr> else this)
      in case levels g1 levelNum of
           None \<Rightarrow> Inl (TypeError, g1)
         | Some level \<Rightarrow>
             (let config = level (canvas_width g1) (canvas_height g1)
              in Inr (g1\<lparr>state := IDLE,
                         uiMessages_hidden := True,
                         uiStage_innerText := levelNum,
                         retryBtn_innerText := ''RETRY'',
                         retryBtn_onclick := Some Retry_level,
                         ship := Some (Ship_new (vx (cfg_ship config)) (vy (cfg_ship config))),
                         planets := cfg_planets config,
                         goal := Some (Goal_new (vx (cfg_goal_pos config))
                                   (vy (cfg_goal_pos config)) (cfg_goal_r config))\<rparr>)))"

text \<open>
  The constructor. \<open>innerWidth\<close> and \<open>innerHeight\<close> are the window's size read by
  \<^verbatim>\<open>resize\<close>; \<open>msgText\<close>, \<open>msgColor\<close> and \<open>btnText\<close> are what the page holds in the elements
  before the program first writes to them.
\<close>

definition Game_new :: "real \<Rightarrow> real \<Rightarrow> string \<Rightarrow> string \<Rightarrow> string \<Rightarrow> Game result" where
  "Game_new innerWidth innerHeight msgText msgColor btnText =
     (case Game_initLevel 1
        \<lparr>canvas_width = innerWidth, canvas_height = innerHeight,
         uiStage_innerText = 0,
         uiMessages_innerText = msgText, uiMessages_color = msgColor,
         uiMessages_hidden = False,
         retryBtn_innerText = btnText, retryBtn_onclick = None,
         currentLevel = 1,
         isDragging = False, dragStart = None, dragCurrent = None,
         ship = None, planets = [], goal = None, state = IDLE,
         levels = builtin_levels, lastTime = 0, frameCount = 0\<rparr> of
        Inl e \<Rightarrow> Inl e
      | Inr g \<Rightarrow> Inr (g\<lparr>lastTime := 0, frameCount := 0\<rparr>))"

definition Game_resize :: "real \<Rightarrow> real \<Rightarrow> Game \<Rightarrow> Game" where
  "Game_resize innerWidth innerHeight this =
     this\<lparr>canvas_width := innerWidth, canvas_height := innerHeight\<rparr>"

text \<open>A mouse event, with the canvas's bounding rectangle at the time of the event.\<close>

record MouseEvent =
  clientX :: real
  clientY :: real
  rect_left :: real
  rect_top :: real

definition Game_getMousePos :: "MouseEvent \<Rightarrow> Vector2" where
  "Game_getMousePos e = Vector2_new (clientX e - rect_left e) (clientY e - rect_top e)"

definition Game_onMouseDown :: "MouseEvent \<Rightarrow> Game \<Rightarrow> Game" where
  "Game_onMouseDown e this =
     (if state this \<noteq> IDLE then this
      else (let pos = Game_getMousePos e
            in this\<lparr>isDragging := True, dragStart := Some pos, dragCurrent := Some pos\<rparr>))"

definition Game_onMouseMove :: "MouseEvent \<Rightarrow> Game \<Rightarrow> Game" where
  "Game_onMouseMove e this =
     (if \<not> isDragging this then this
      else this\<lparr>dragCurrent := Some (Game_getMousePos e)\<rparr>)"

definition Game_onMouseUp :: "Game \<Rightarrow> Game result" where
  "Game_onMouseUp this =
     (if \<not> isDragging this then Inr this
      else (let g1 = this\<lparr>isDragging := False\<rparr>
            in case (dragStart g1, dragCurrent g1) of
                 (Some ds, Some dc) \<Rightarrow>
                   (let dragVector = Vector2_sub ds dc;
                        power = 3;
                        launchVel = Vector2_mult dragVector (0.1 * power)
                    in case ship g1 of
                         None \<Rightarrow> Inl (TypeError, g1)
                       | Some sh \<Rightarrow>
                           Inr (g1\<lparr>ship := Some (sh\<lparr>ship_vel := launchVel\<rparr>),
                                   state := FLYING\<rparr>))
               | _ \<Rightarrow> Inl (TypeError, g1)))"

definition Game_gameWin :: "Game \<Rightarrow> Game" where
  "Game_gameWin this =
     this\<lparr>state := ENDED,
          uiMessages_innerText := ''COURSE CLEAR!'',
          uiMessages_color := ''#4cc9f0'',
          uiMessages_hidden := False,
          retryBtn_innerText := ''NEXT LEVEL'',
          retryBtn_onclick := Some Next_level\<rparr>"

definition Game_gameLoss :: "string \<Rightarrow> Game \<Rightarrow> Game" where
  "Game_gameLoss msg this =
     this\<lparr>state := ENDED,
          uiMessages_innerText := msg,
          uiMessages_color := ''#ef233c'',
          uiMessages_hidden := False\<rparr>"

text \<open>
  The loop over the planets of \<^verbatim>\<open>Game.checkCollisions\<close> (lines 330 to 334). \<open>sh\<close> is
  \<^verbatim>\<open>this.ship\<close>, which \<^verbatim>\<open>gameLoss\<close> does not assign. The loop has no \<^verbatim>\<open>break\<close>.
\<close>

fun Game_checkCollisions_planets :: "Ship \<Rightarrow> Planet list \<Rightarrow> Game \<Rightarrow> Game" where
  "Game_checkCollisions_planets sh [] this = this"
| "Game_checkCollisions_planets sh (p # rest) this =
     Game_checkCollisions_planets sh rest
       (if Vector2_dist (ship_pos sh) (planet_pos p) < planet_radius p + ship_radius sh
        then Game_gameLoss ''CRASHED!'' this
        else this)"

text \<open>
  \<^verbatim>\<open>Game.checkCollisions()\<close>: three checks in sequence, none of which returns. The only
  throw is at the first line, when \<^verbatim>\<open>this.ship\<close> or \<^verbatim>\<open>this.goal\<close> is \<^verbatim>\<open>null\<close>.
\<close>

definition Game_checkCollisions :: "Game \<Rightarrow> Game result" where
  "Game_checkCollisions this =
     (case (ship this, goal this) of
        (Some sh, Some gl) \<Rightarrow>
          (let g1 = (if Vector2_dist (ship_pos sh) (goal_pos gl) < goal_radius gl + ship_radius sh
                     then Game_gameWin this else this);
               g2 = Game_checkCollisions_planets sh (planets g1) g1;
               m = 0
           in Inr (if vx (ship_pos sh) < - m \<or> vx (ship_pos sh) > canvas_width g2 + m \<or>
                      vy (ship_pos sh) < - m \<or> vy (ship_pos sh) > canvas_height g2 + m
                   then Game_gameLoss ''LOST IN SPACE'' g2
                   else g2))
      | _ \<Rightarrow> Inl (TypeError, this))"

text \<open>\<^verbatim>\<open>Game.update(dt)\<close>: the frame counter always advances; physics only while FLYING.\<close>

definition Game_update :: "real \<Rightarrow> Game \<Rightarrow> Game result" where
  "Game_update dt this =
     (let g1 = this\<lparr>frameCount := frameCount this + 1\<rparr>
      in if state g1 = FLYING
         then (case ship g1 of
                 None \<Rightarrow> Inl (TypeError, g1)
               | Some sh \<Rightarrow>
                   Game_checkCollisions
                     (g1\<lparr>ship := Some (Ship_update (frameCount g1) (dt * 20) (planets g1) sh)\<rparr>))
         else Inr g1)"

text \<open>
  \<^verbatim>\<open>Game.drawTrajectory()\<close>: the commands it issues on the canvas. It assigns no field of
  the game. Both throws (a \<^verbatim>\<open>null\<close> drag point, a \<^verbatim>\<open>null\<close> ship) come before the first
  command.
\<close>

definition Game_drawTrajectory :: "Game \<Rightarrow> error + ctx_cmd list" where
  "Game_drawTrajectory this =
     (case (dragStart this, dragCurrent this) of
        (Some ds, Some dc) \<Rightarrow>
          (let dragVector = Vector2_sub ds dc;
               power = 3;
               launchVel = Vector2_mult dragVector (0.1 * power)
           in case ship this of
                None \<Rightarrow> Inl TypeError
              | Some sh \<Rightarrow>
                  (let simPos = Vector2_copy (ship_pos sh);
                       simVel = Vector2_copy launchVel;
                       simAcc = Vector2_new 0 0;
                       ctx0 = [BeginPath, MoveTo (vx simPos) (vy simPos),
                               StrokeStyle ''rgba(255, 255, 255, 0.5)'', SetLineDash [5, 5]];
                       steps = 100;
                       simDt = 1;
                       ctx1 = snd (drawTrajectory_loop steps simDt (planets this)
                                     (simPos, simVel, simAcc) ctx0)
                   in Inr (ctx1 @
                        [Stroke, SetLineDash [],
                         BeginPath, MoveTo (vx (ship_pos sh)) (vy (ship_pos sh)),
                         LineTo (vx (ship_pos sh) - vx dragVector)
                                (vy (ship_pos sh) - vy dragVector),
                         StrokeStyle ''#fca311'', Stroke])))
      | _ \<Rightarrow> Inl TypeError)"

text \<open>
  \<^verbatim>\<open>Game.draw()\<close>, as far as it changes the game: \<^verbatim>\<open>Goal.draw\<close> advances \<^verbatim>\<open>pulse\<close>. What is
  painted, other than by \<^verbatim>\<open>drawTrajectory\<close>, is not modelled.
\<close>

definition Goal_draw :: "Goal \<Rightarrow> Goal" where
  "Goal_draw this = this\<lparr>pulse := pulse this + 0.05\<rparr>"

definition Game_draw :: "Game \<Rightarrow> Game result" where
  "Game_draw this =
     (if state this = IDLE \<and> isDragging this \<and> Game_drawTrajectory this = Inl TypeError
      then Inl (TypeError, this)
      else (case goal this of
              None \<Rightarrow> Inl (TypeError, this)
            | Some gl \<Rightarrow>
                (let g1 = this\<lparr>goal := Some (Goal_draw gl)\<rparr>
                 in case ship g1 of
                      None \<Rightarrow> Inl (TypeError, g1)
                    | Some sh \<Rightarrow> Inr g1)))"

text \<open>\<^verbatim>\<open>Game.loop(timestamp)\<close>; a throw in \<^verbatim>\<open>update\<close> skips \<^verbatim>\<open>draw\<close>.\<close>

definition Game_loop :: "real \<Rightarrow> Game \<Rightarrow> Game result" where
  "Game_loop timestamp this =
     (let dt = (timestamp - lastTime this) / 1000;
          g1 = this\<lparr>lastTime := timestamp\<rparr>
      in case Game_update dt g1 of
           Inl e \<Rightarrow> Inl e
         | Inr g2 \<Rightarrow> Game_draw g2)"

text \<open>
  The two listeners of the retry button: the one the constructor adds with
  \<^verbatim>\<open>addEventListener\<close> (lines 192 to 197), and whatever \<^verbatim>\<open>retryBtn.onclick\<close> holds.
\<close>

definition retryBtn_click :: "Game \<Rightarrow> Game result" where
  "retryBtn_click this =
     (if state this \<noteq> ENDED \<or> uiMessages_innerText this \<noteq> ''COURSE CLEAR!''
      then Game_initLevel (currentLevel this) this
      else Inr this)"

definition retryBtn_onclick_call :: "Game \<Rightarrow> Game result" where
  "retryBtn_onclick_call this =
     (case retryBtn_onclick this of
        None \<Rightarrow> Inr this
      | Some Retry_level \<Rightarrow> Game_initLevel (currentLevel this) this
      | Some Next_level \<Rightarrow>
          (let g1 = this\<lparr>currentLevel := currentLevel this + 1\<rparr>
           in Game_initLevel (currentLevel g1) g1))"

text \<open>The game a handler leaves behind, whether it returned or threw.\<close>

fun after :: "Game result \<Rightarrow> Game" where
  "after (Inr g) = g"
| "after (Inl (e, g)) = g"

text \<open>
  The games the program can be in: the constructor's result, closed under every handler
  the constructor registers, called in any order and with any argument.
\<close>

inductive reachable :: "Game \<Rightarrow> bool" where
  constructed: "Game_new w h msgText msgColor btnText = Inr g \<Longrightarrow> reachable g"
| resized: "reachable g \<Longrightarrow> reachable (Game_resize w h g)"
| mouse_down: "reachable g \<Longrightarrow> reachable (Game_onMouseDown e g)"
| mouse_move: "reachable g \<Longrightarrow> reachable (Game_onMouseMove e g)"
| mouse_up: "reachable g \<Longrightarrow> reachable (after (Game_onMouseUp g))"
| frame: "reachable g \<Longrightarrow> reachable (after (Game_loop timestamp g))"
| retry_click: "reachable g \<Longrightarrow> reachable (after (retryBtn_click g))"
| retry_onclick: "reachable g \<Longrightarrow> reachable (after (retryBtn_onclick_call g))"

section \<open>The specification's reference points\<close>

text \<open>
  The force law in the words of the specification: a body at distance \<open>d\<close> contributes
  zero when \<open>d \<ge> influenceRadius\<close>, and \<open>normalize(dir) * (gravityStrength / (d + 5.0))\<close>
  otherwise; the net acceleration is the sum over the bodies, component by component.
\<close>

definition spec_contribution :: "Vector2 \<Rightarrow> Planet \<Rightarrow> Vector2" where
  "spec_contribution point body =
     (let dir = Vector2_sub (planet_pos body) point;
          d = Vector2_mag dir
      in if d \<ge> influenceRadius body then Vector2_new 0 0
         else Vector2_mult (Vector2_normalize dir) (gravity body / (d + 5.0)))"

definition spec_acceleration :: "Vector2 \<Rightarrow> Planet list \<Rightarrow> Vector2" where
  "spec_acceleration point bodies =
     Vector2_new (\<Sum>body\<leftarrow>bodies. vx (spec_contribution point body))
                 (\<Sum>body\<leftarrow>bodies. vy (spec_contribution point body))"

text \<open>
  A live flight of \<open>n\<close> steps: \<^verbatim>\<open>Ship.update\<close> called \<open>n\<close> times with the same \<open>dt\<close>, the
  frame counter advancing by one each time as in \<^verbatim>\<open>Game.update\<close>; the positions after each
  call.
\<close>

fun live_positions :: "nat \<Rightarrow> nat \<Rightarrow> real \<Rightarrow> Planet list \<Rightarrow> Ship \<Rightarrow> Vector2 list" where
  "live_positions 0 frame dt bodies s = []"
| "live_positions (Suc n) frame dt bodies s =
     (let s1 = Ship_update frame dt bodies s
      in ship_pos s1 # live_positions n (Suc frame) dt bodies s1)"

text \<open>The points of the \<^verbatim>\<open>lineTo\<close> calls in a list of canvas commands.\<close>

fun lineTo_points :: "ctx_cmd list \<Rightarrow> Vector2 list" where
  "lineTo_points [] = []"
| "lineTo_points (LineTo a b # rest) = Vector2_new a b # lineTo_points rest"
| "lineTo_points (c # rest) = lineTo_points rest"

section \<open>Sample scenes\<close>

text \<open>
  Concrete games on which the thresholds are evaluated. \<open>sample_game\<close> is level 1 on an
  800 by 600 canvas, in flight; \<open>goal_scene d\<close> puts the craft at distance \<open>d\<close> to the
  right of a goal of radius 30 centred at \<open>(500, 100)\<close>, with no planet;
  \<open>overlap_scene\<close> is level 1 as the constructor builds it on a 300 by 300 canvas, where
  the goal and the planet are close, with the craft in flight between them.
\<close>

definition sample_game :: Game where
  "sample_game =
     \<lparr>canvas_width = 800, canvas_height = 600,
      uiStage_innerText = 1,
      uiMessages_innerText = [], uiMessages_color = [], uiMessages_hidden = True,
      retryBtn_innerText = ''RETRY'', retryBtn_onclick = Some Retry_level,
      currentLevel = 1,
      isDragging = False, dragStart = None, dragCurrent = None,
      ship = Some (Ship_new 100 500),
      planets = [Planet_new 400 300 40 5000 300],
      goal = Some (Goal_new 700 100 30),
      state = FLYING,
      levels = builtin_levels, lastTime = 0, frameCount = 0\<rparr>"

definition goal_scene :: "real \<Rightarrow> Game" where
  "goal_scene d =
     sample_game\<lparr>canvas_width := 1000, canvas_height := 1000,
                 ship := Some (Ship_new (500 + d) 100), planets := [],
                 goal := Some (Goal_new 500 100 30)\<rparr>"

definition bounds_scene :: "real \<Rightarrow> real \<Rightarrow> Game" where
  "bounds_scene a b = sample_game\<lparr>ship := Some (Ship_new a b)\<rparr>"

definition overlap_scene :: Game where
  "overlap_scene =
     (after (Game_new 300 300 [] [] []))\<lparr>ship := Some (Ship_new 175 125), state := FLYING\<rparr>"

text \<open>
  A level table whose level 1 is not physical: a planet of radius \<open>-40\<close>, gravity
  \<open>-5000\<close> and influence radius 0, and a goal of radius \<open>-30\<close>.
\<close>

definition malformed_level :: "real \<Rightarrow> real \<Rightarrow> level_config" where
  "malformed_level w h =
     \<lparr>cfg_ship = Vector2_new 100 (h - 100),
      cfg_goal_pos = Vector2_new (w - 100) 100, cfg_goal_r = - 30,
      cfg_planets = [Planet_new (w / 2) (h / 2) (- 40) (- 5000) 0]\<rparr>"

definition malformed_levels :: "nat \<Rightarrow> (real \<Rightarrow> real \<Rightarrow> level_config) option" where
  "malformed_levels n = (if n = 1 then Some malformed_level else None)"

definition malformed_game :: Game where
  "malformed_game = sample_game\<lparr>levels := malformed_levels\<rparr>"

text \<open>
  The invariant behind the launch gate: a drag is in progress only while the mission is
  IDLE.
\<close>

definition launch_gate :: "Game \<Rightarrow> bool" where
  "launch_gate g \<longleftrightarrow> (isDragging g \<longrightarrow> state g = IDLE)"

text \<open>
  A short run: the game as constructed on an 800 by 600 canvas; a drag of 600 pixels to
  the right, which launches the craft to the left at 180 per unit of time; one frame 50 ms
  later, which carries it out of the play area.
\<close>

definition start_game :: Game where
  "start_game = after (Game_new 800 600 [] [] [])"

definition press :: MouseEvent where
  "press = \<lparr>clientX = 100, clientY = 300, rect_left = 0, rect_top = 0\<rparr>"

definition release :: MouseEvent where
  "release = \<lparr>clientX = 700, clientY = 300, rect_left = 0, rect_top = 0\<rparr>"

definition launched_game :: Game where
  "launched_game =
     after (Game_onMouseUp (Game_onMouseMove release (Game_onMouseDown press start_game)))"

definition lost_game :: Game where
  "lost_game = after (Game_loop 50 launched_game)"

text \<open>
  A drag in progress with no displacement, next to a body without gravity whose radius
  covers the craft: every predicted position lies inside the body.
\<close>

definition aiming_game :: Game where
  "aiming_game =
     sample_game\<lparr>state := IDLE, isDragging := True,
                 dragStart := Some (Vector2_new 300 300), dragCurrent := Some (Vector2_new 300 300),
                 planets := [Planet_new 100 500 1000 0 300]\<rparr>"


section \<open>Basic facts\<close>

lemma Vector2_new_sel [simp]: "vx (Vector2_new a b) = a" "vy (Vector2_new a b) = b"
  by (simp_all add: Vector2_new_def)

lemma Vector2_new_eta [simp]: "Vector2_new (vx v) (vy v) = v"
  by (simp add: Vector2_new_def)

lemma Vector2_new_eq_iff [simp]: "Vector2_new a b = Vector2_new c d \<longleftrightarrow> a = c \<and> b = d"
  by (simp add: Vector2_new_def)

text \<open>A distance test without the square root, for evaluating the thresholds.\<close>

lemma Vector2_dist_less_iff:
  "Vector2_dist a b < r \<longleftrightarrow> 0 < r \<and> (vx a - vx b)\<^sup>2 + (vy a - vy b)\<^sup>2 < r\<^sup>2"
proof -
  let ?q = "(vx a - vx b)\<^sup>2 + (vy a - vy b)\<^sup>2"
  have d: "Vector2_dist a b = sqrt ?q"
    by (simp add: Vector2_dist_def Vector2_mag_def Vector2_sub_def power2_eq_square)
  have q: "0 \<le> ?q" by simp
  show ?thesis
  proof (cases "0 < r")
    case True
    then have "sqrt ?q < r \<longleftrightarrow> ?q < r\<^sup>2"
      by (metis less_eq_real_def real_sqrt_less_iff real_sqrt_abs abs_of_nonneg)
    with True d show ?thesis by simp
  next
    case False
    have "0 \<le> sqrt ?q" using q by simp
    with False have "\<not> sqrt ?q < r" by linarith
    with False d show ?thesis by simp
  qed
qed

lemma Vector2_mag_eq: "0 \<le> m \<Longrightarrow> a * a + b * b = m * m \<Longrightarrow> Vector2_mag (Vector2_new a b) = m"
  by (simp add: Vector2_mag_def)

lemma Vector2_add_zero: "Vector2_add (Vector2_new 0 0) v = v"
  by (simp add: Vector2_add_def)

section \<open>The force field and the step\<close>

lemma Ship_update_gravity_fields:
  "ship_pos (Ship_update_gravity B s) = ship_pos s"
  "ship_vel (Ship_update_gravity B s) = ship_vel s"
  "trail (Ship_update_gravity B s) = trail s"
  "maxTrailLength (Ship_update_gravity B s) = maxTrailLength s"
  "ship_radius (Ship_update_gravity B s) = ship_radius s"
  by (induction B arbitrary: s; simp add: Let_def Ship_applyForce_def)+

text \<open>The live loop and the prediction loop accumulate the same acceleration.\<close>

lemma Ship_update_gravity_acc:
  "ship_acc (Ship_update_gravity B s) = drawTrajectory_gravity B (ship_pos s) (ship_acc s)"
  by (induction B arbitrary: s) (simp_all add: Let_def Ship_applyForce_def)

lemma drawTrajectory_gravity_spec:
  "drawTrajectory_gravity B p a = Vector2_add a (spec_acceleration p B)"
proof (induction B arbitrary: a)
  case Nil
  show ?case by (simp add: spec_acceleration_def Vector2_add_def)
next
  case (Cons b B)
  show ?case
    by (simp add: Cons.IH Let_def spec_acceleration_def spec_contribution_def Vector2_add_def
        not_le not_less)
qed

lemma Ship_update_pos_vel:
  "ship_vel (Ship_update fc dt B s) =
     Vector2_add (ship_vel s)
       (Vector2_mult (drawTrajectory_gravity B (ship_pos s) (Vector2_new 0 0)) dt)"
  "ship_pos (Ship_update fc dt B s) =
     Vector2_add (ship_pos s) (Vector2_mult (ship_vel (Ship_update fc dt B s)) dt)"
  "ship_acc (Ship_update fc dt B s) = drawTrajectory_gravity B (ship_pos s) (Vector2_new 0 0)"
  by (simp_all add: Ship_update_def Let_def Ship_update_gravity_fields Ship_update_gravity_acc)

text \<open>
  Claim C3. For every point and every list of bodies, the acceleration that
  \<^verbatim>\<open>Ship.update\<close> leaves in \<^verbatim>\<open>acc\<close>, and the one the prediction loop accumulates in
  \<^verbatim>\<open>simAcc\<close>, both equal the specification's sum over the bodies, with the same
  softening constant 5. A single body at distance \<open>d \<ge> influenceRadius\<close> contributes
  exactly zero; at \<open>d < influenceRadius\<close> it contributes
  \<open>normalize(dir) * (gravity / (d + 5))\<close>.
\<close>

theorem force_field_sum:
  "ship_acc (Ship_update fc dt B s) = spec_acceleration (ship_pos s) B
   \<and> drawTrajectory_gravity B p (Vector2_new 0 0) = spec_acceleration p B
   \<and> (influenceRadius b \<le> Vector2_mag (Vector2_sub (planet_pos b) p) \<longrightarrow>
        drawTrajectory_gravity [b] p (Vector2_new 0 0) = Vector2_new 0 0
        \<and> ship_acc (Ship_update fc dt [b] (s\<lparr>ship_pos := p\<rparr>)) = Vector2_new 0 0)
   \<and> (Vector2_mag (Vector2_sub (planet_pos b) p) < influenceRadius b \<longrightarrow>
        drawTrajectory_gravity [b] p (Vector2_new 0 0) =
          Vector2_mult (Vector2_normalize (Vector2_sub (planet_pos b) p))
            (gravity b / (Vector2_mag (Vector2_sub (planet_pos b) p) + 5))
        \<and> ship_acc (Ship_update fc dt [b] (s\<lparr>ship_pos := p\<rparr>)) =
          Vector2_mult (Vector2_normalize (Vector2_sub (planet_pos b) p))
            (gravity b / (Vector2_mag (Vector2_sub (planet_pos b) p) + 5)))"
proof -
  have 1: "ship_acc (Ship_update fc dt B s) = spec_acceleration (ship_pos s) B"
    by (simp add: Ship_update_pos_vel drawTrajectory_gravity_spec Vector2_add_zero)
  have 2: "drawTrajectory_gravity B p (Vector2_new 0 0) = spec_acceleration p B"
    by (simp add: drawTrajectory_gravity_spec Vector2_add_zero)
  have 3: "influenceRadius b \<le> Vector2_mag (Vector2_sub (planet_pos b) p) \<longrightarrow>
        drawTrajectory_gravity [b] p (Vector2_new 0 0) = Vector2_new 0 0
        \<and> ship_acc (Ship_update fc dt [b] (s\<lparr>ship_pos := p\<rparr>)) = Vector2_new 0 0"
    by (simp add: Ship_update_pos_vel Let_def)
  have 4: "Vector2_mag (Vector2_sub (planet_pos b) p) < influenceRadius b \<longrightarrow>
        drawTrajectory_gravity [b] p (Vector2_new 0 0) =
          Vector2_mult (Vector2_normalize (Vector2_sub (planet_pos b) p))
            (gravity b / (Vector2_mag (Vector2_sub (planet_pos b) p) + 5))
        \<and> ship_acc (Ship_update fc dt [b] (s\<lparr>ship_pos := p\<rparr>)) =
          Vector2_mult (Vector2_normalize (Vector2_sub (planet_pos b) p))
            (gravity b / (Vector2_mag (Vector2_sub (planet_pos b) p) + 5))"
    by (simp add: Ship_update_pos_vel Let_def Vector2_add_zero)
  from 1 2 3 4 show ?thesis by blast
qed

text \<open>
  A body at \<open>(3, 4)\<close> seen from the origin is at distance 5: with influence radius 5 it
  contributes nothing, with influence radius 10 and gravity 100 it pulls with \<open>(6, 8)\<close>.
\<close>

theorem force_field_sum_witness:
  "influenceRadius (Planet_new 3 4 1 100 5)
      \<le> Vector2_mag (Vector2_sub (planet_pos (Planet_new 3 4 1 100 5)) (Vector2_new 0 0))
   \<and> drawTrajectory_gravity [Planet_new 3 4 1 100 5] (Vector2_new 0 0) (Vector2_new 0 0)
       = Vector2_new 0 0
   \<and> ship_acc (Ship_update 0 1 [Planet_new 3 4 1 100 5] (Ship_new 0 0)) = Vector2_new 0 0
   \<and> Vector2_mag (Vector2_sub (planet_pos (Planet_new 3 4 1 100 10)) (Vector2_new 0 0))
       < influenceRadius (Planet_new 3 4 1 100 10)
   \<and> drawTrajectory_gravity [Planet_new 3 4 1 100 10] (Vector2_new 0 0) (Vector2_new 0 0)
       = Vector2_new 6 8
   \<and> ship_acc (Ship_update 0 1 [Planet_new 3 4 1 100 10] (Ship_new 0 0)) = Vector2_new 6 8"
proof -
  have m: "Vector2_mag (Vector2_new 3 4) = 5"
    by (rule Vector2_mag_eq) simp_all
  have s: "(Ship_new 0 0)\<lparr>ship_pos := Vector2_new 0 0\<rparr> = Ship_new 0 0"
    by (simp add: Ship_new_def)
  show ?thesis
    using force_field_sum [of 0 1 "[]" "Ship_new 0 0" "Vector2_new 0 0" "Planet_new 3 4 1 100 5"]
      force_field_sum [of 0 1 "[]" "Ship_new 0 0" "Vector2_new 0 0" "Planet_new 3 4 1 100 10"]
    by (simp add: s m Planet_new_def Vector2_sub_def Vector2_normalize_def Vector2_mult_def)
qed

text \<open>
  Claim C4. One call of \<^verbatim>\<open>Ship.update\<close> sets the velocity to \<open>velocity + a * dt\<close> and
  the position to \<open>position + velocity' * dt\<close> with the updated velocity \<open>velocity'\<close>,
  where \<open>a\<close> is the acceleration of that call. With a body that makes \<open>a = (0, -10)\<close>,
  \<open>dt = 1\<close> and initial velocity \<open>(0, 0)\<close>, the velocity becomes \<open>(0, -10)\<close> and the
  position advances by \<open>(0, -10)\<close>, not by \<open>(0, 0)\<close>.
\<close>

theorem symplectic_step:
  "ship_vel (Ship_update fc dt B s)
     = Vector2_add (ship_vel s) (Vector2_mult (ship_acc (Ship_update fc dt B s)) dt)
   \<and> ship_pos (Ship_update fc dt B s)
     = Vector2_add (ship_pos s) (Vector2_mult (ship_vel (Ship_update fc dt B s)) dt)
   \<and> ship_acc (Ship_update fc 1 [Planet_new x0 (y0 - 5) 1 100 10] (Ship_new x0 y0))
     = Vector2_new 0 (- 10)
   \<and> ship_vel (Ship_update fc 1 [Planet_new x0 (y0 - 5) 1 100 10] (Ship_new x0 y0))
     = Vector2_new 0 (- 10)
   \<and> ship_pos (Ship_update fc 1 [Planet_new x0 (y0 - 5) 1 100 10] (Ship_new x0 y0))
     = Vector2_add (Vector2_new x0 y0) (Vector2_new 0 (- 10))
   \<and> ship_pos (Ship_update fc 1 [Planet_new x0 (y0 - 5) 1 100 10] (Ship_new x0 y0))
     \<noteq> Vector2_add (Vector2_new x0 y0) (Vector2_new 0 0)"
proof -
  let ?B = "[Planet_new x0 (y0 - 5) 1 100 10]"
  let ?s = "Ship_new x0 y0"
  have m: "Vector2_mag (Vector2_new 0 (- 5)) = 5"
    by (rule Vector2_mag_eq) simp_all
  have sp: "ship_pos ?s = Vector2_new x0 y0" and sv: "ship_vel ?s = Vector2_new 0 0"
    by (simp_all add: Ship_new_def)
  have d: "Vector2_sub (planet_pos (Planet_new x0 (y0 - 5) 1 100 10)) (Vector2_new x0 y0)
             = Vector2_new 0 (- 5)"
    by (simp add: Planet_new_def Vector2_sub_def)
  have a: "drawTrajectory_gravity ?B (ship_pos ?s) (Vector2_new 0 0) = Vector2_new 0 (- 10)"
    unfolding sp
    by (simp add: d m Let_def Vector2_normalize_def Vector2_mult_def Vector2_add_def)
      (simp add: Planet_new_def)
  have c: "ship_acc (Ship_update fc 1 ?B ?s) = Vector2_new 0 (- 10)"
    by (simp only: Ship_update_pos_vel(3) a)
  have v: "ship_vel (Ship_update fc 1 ?B ?s) = Vector2_new 0 (- 10)"
    by (simp only: Ship_update_pos_vel(1) a sv) (simp add: Vector2_add_def Vector2_mult_def)
  have p: "ship_pos (Ship_update fc 1 ?B ?s)
             = Vector2_add (Vector2_new x0 y0) (Vector2_new 0 (- 10))"
    by (simp only: Ship_update_pos_vel(2) v sp) (simp add: Vector2_add_def Vector2_mult_def)
  have n: "ship_pos (Ship_update fc 1 ?B ?s)
             \<noteq> Vector2_add (Vector2_new x0 y0) (Vector2_new 0 0)"
    by (simp add: p Vector2_add_def)
  have g1: "ship_vel (Ship_update fc dt B s)
     = Vector2_add (ship_vel s) (Vector2_mult (ship_acc (Ship_update fc dt B s)) dt)"
    by (simp only: Ship_update_pos_vel)
  have g2: "ship_pos (Ship_update fc dt B s)
     = Vector2_add (ship_pos s) (Vector2_mult (ship_vel (Ship_update fc dt B s)) dt)"
    by (rule Ship_update_pos_vel(2))
  from g1 g2 c v p n show ?thesis by blast
qed

text \<open>
  No call of \<^verbatim>\<open>normalize\<close> divides by zero, and \<open>Vector2_normalize\<close>, which the gravity
  loops use, is the value it returns.
\<close>

lemma Vector2_normalize_checked_value:
  "Vector2_normalize_checked v = Some (Vector2_normalize v)"
  by (simp add: Vector2_normalize_checked_def Vector2_normalize_def js_div_def Let_def)

text \<open>
  Claim C9. \<^verbatim>\<open>normalize\<close> of the zero vector returns the zero vector through the explicit
  branch \<^verbatim>\<open>m === 0\<close>, and no input at all makes it divide by zero (the result is never
  \<open>None\<close>): whenever the magnitude is 0 the branch answers with the zero vector before any
  division; for a vector of magnitude \<open>m \<noteq> 0\<close> it returns the vector with each component
  divided by \<open>m\<close>.
\<close>

theorem normalize_cases:
  "Vector2_normalize_checked (Vector2_new 0 0) = Some (Vector2_new 0 0)
   \<and> Vector2_normalize_checked v \<noteq> None
   \<and> (Vector2_mag v = 0 \<longrightarrow> Vector2_normalize_checked v = Some (Vector2_new 0 0))
   \<and> (Vector2_mag v \<noteq> 0 \<longrightarrow>
        Vector2_normalize_checked v
          = Some (Vector2_new (vx v / Vector2_mag v) (vy v / Vector2_mag v)))"
proof (intro conjI impI)
  have z: "Vector2_mag (Vector2_new 0 0) = 0"
    by (simp add: Vector2_mag_def)
  show "Vector2_normalize_checked (Vector2_new 0 0) = Some (Vector2_new 0 0)"
    by (simp add: Vector2_normalize_checked_def z)
  show "Vector2_normalize_checked v = Some (Vector2_new 0 0)" if "Vector2_mag v = 0"
    using that by (simp add: Vector2_normalize_checked_def)
  show nz: "Vector2_normalize_checked v
          = Some (Vector2_new (vx v / Vector2_mag v) (vy v / Vector2_mag v))"
    if "Vector2_mag v \<noteq> 0"
    using that by (simp add: Vector2_normalize_checked_def js_div_def Let_def)
  show "Vector2_normalize_checked v \<noteq> None"
  proof (cases "Vector2_mag v = 0")
    case True
    then show ?thesis by (simp add: Vector2_normalize_checked_def)
  next
    case False
    then show ?thesis by (simp add: nz)
  qed
qed

text \<open>
  The zero vector takes the branch; \<open>(3, 4)\<close> has magnitude 5 and becomes
  \<open>(3/5, 4/5)\<close>.
\<close>

theorem normalize_cases_witness:
  "Vector2_mag (Vector2_new 0 0) = 0
   \<and> Vector2_normalize_checked (Vector2_new 0 0) = Some (Vector2_new 0 0)
   \<and> Vector2_mag (Vector2_new 3 4) \<noteq> 0
   \<and> Vector2_normalize_checked (Vector2_new 3 4) = Some (Vector2_new (3 / 5) (4 / 5))"
proof -
  have z: "Vector2_mag (Vector2_new 0 0) = 0"
    by (simp add: Vector2_mag_def)
  have m: "Vector2_mag (Vector2_new 3 4) = 5"
    by (rule Vector2_mag_eq) simp_all
  show ?thesis
    using normalize_cases [of "Vector2_new 0 0"] normalize_cases [of "Vector2_new 3 4"]
    by (simp add: z m)
qed

section \<open>The prediction loop\<close>

lemma drawTrajectory_loop_ctx:
  "snd (drawTrajectory_loop n dt B sim ctx) = ctx @ snd (drawTrajectory_loop n dt B sim [])"
proof (induction n arbitrary: sim ctx)
  case 0
  show ?case by simp
next
  case (Suc n)
  obtain p v a where sim: "sim = (p, v, a)" by (cases sim) auto
  show ?case
    unfolding sim
    by (simp add: Let_def Suc.IH [of _ "ctx @ _"] Suc.IH [of _ "[_]"])
qed

lemma lineTo_points_append: "lineTo_points (xs @ ys) = lineTo_points xs @ lineTo_points ys"
  by (induction xs rule: lineTo_points.induct) simp_all

text \<open>
  Claim C1. For every launch state \<open>S\<close>, planet list \<open>B\<close>, step count \<open>N\<close> and step \<open>dt\<close>,
  the prediction loop of \<^verbatim>\<open>drawTrajectory\<close>, run for \<open>N\<close> iterations from the position and
  velocity of \<open>S\<close>, emits exactly the positions that \<open>N\<close> calls of \<^verbatim>\<open>Ship.update\<close> with the
  same \<open>dt\<close> give from \<open>S\<close>. Neither the initial value of \<^verbatim>\<open>simAcc\<close> nor the frame counter
  (which only feeds the trail) matters.
\<close>

theorem predict_live_consistency:
  "lineTo_points (snd (drawTrajectory_loop N dt B (ship_pos S, ship_vel S, a0) []))
     = live_positions N fc dt B S"
proof (induction N arbitrary: S a0 fc)
  case 0
  show ?case by simp
next
  case (Suc N)
  let ?S1 = "Ship_update fc dt B S"
  have "lineTo_points (snd (drawTrajectory_loop (Suc N) dt B (ship_pos S, ship_vel S, a0) []))
      = ship_pos ?S1 #
        lineTo_points
          (snd (drawTrajectory_loop N dt B (ship_pos ?S1, ship_vel ?S1, ship_acc ?S1) []))"
    by (simp add: Let_def Ship_update_pos_vel drawTrajectory_loop_ctx [of _ _ _ _ "[_]"]
        lineTo_points_append)
  then show ?case
    by (simp add: Suc.IH Let_def)
qed

section \<open>The termination checks\<close>

lemma Game_gameLoss_twice: "Game_gameLoss msg (Game_gameLoss msg g) = Game_gameLoss msg g"
  by (simp add: Game_gameLoss_def)

lemma Game_checkCollisions_planets_eq:
  "Game_checkCollisions_planets sh ps g =
     (if \<exists>p\<in>set ps. Vector2_dist (ship_pos sh) (planet_pos p) < planet_radius p + ship_radius sh
      then Game_gameLoss ''CRASHED!'' g else g)"
proof (induction ps arbitrary: g)
  case Nil
  show ?case by simp
next
  case (Cons p ps)
  show ?case by (simp add: Cons.IH Game_gameLoss_twice)
qed

lemma Game_checkCollisions_eq:
  assumes "ship g = Some sh" and "goal g = Some gl"
  shows "Game_checkCollisions g =
     Inr (let g1 = (if Vector2_dist (ship_pos sh) (goal_pos gl) < goal_radius gl + ship_radius sh
                    then Game_gameWin g else g);
              g2 = (if \<exists>p\<in>set (planets g).
                         Vector2_dist (ship_pos sh) (planet_pos p) < planet_radius p + ship_radius sh
                    then Game_gameLoss ''CRASHED!'' g1 else g1)
          in if vx (ship_pos sh) < 0 \<or> canvas_width g < vx (ship_pos sh) \<or>
                vy (ship_pos sh) < 0 \<or> canvas_height g < vy (ship_pos sh)
             then Game_gameLoss ''LOST IN SPACE'' g2 else g2)"
  using assms
  by (simp add: Game_checkCollisions_def Game_checkCollisions_planets_eq Let_def
      Game_gameWin_def Game_gameLoss_def)

text \<open>
  Claim C5, as amended. With craft radius 8 and a goal of radius 30 centred at
  \<open>(500, 100)\<close>, no planet within its threshold and the craft inside the play area: at
  any distance below 38 from the goal centre (36 and 37 among them) the evaluator calls
  \<^verbatim>\<open>gameWin\<close>; at distance 38 or more it changes nothing.
\<close>

theorem goal_detection_threshold:
  assumes "ship g = Some sh" and "goal g = Some gl"
    and "ship_radius sh = 8" and "goal_radius gl = 30" and "goal_pos gl = Vector2_new 500 100"
    and "\<forall>p\<in>set (planets g).
           \<not> Vector2_dist (ship_pos sh) (planet_pos p) < planet_radius p + ship_radius sh"
    and "0 \<le> vx (ship_pos sh)" and "vx (ship_pos sh) \<le> canvas_width g"
    and "0 \<le> vy (ship_pos sh)" and "vy (ship_pos sh) \<le> canvas_height g"
  shows "(Vector2_dist (ship_pos sh) (Vector2_new 500 100) < 38 \<longrightarrow>
            Game_checkCollisions g = Inr (Game_gameWin g))
       \<and> (38 \<le> Vector2_dist (ship_pos sh) (Vector2_new 500 100) \<longrightarrow>
            Game_checkCollisions g = Inr g)"
  using assms by (simp add: Game_checkCollisions_eq [of g sh gl])

lemma goal_scene_dist:
  "0 \<le> d \<Longrightarrow> Vector2_dist (ship_pos (Ship_new (500 + d) 100)) (Vector2_new 500 100) = d"
  by (simp add: Vector2_dist_def Vector2_sub_def Ship_new_def Vector2_mag_def)

text \<open>
  At distance 37 the test \<^verbatim>\<open>dist < goal.radius + ship.radius\<close> reads \<open>37 < 38\<close>: the
  mission ends with COURSE CLEAR, it does not continue.
\<close>

theorem goal_detection_37_counterexample:
  "Vector2_dist (ship_pos (Ship_new (500 + 37) 100)) (goal_pos (Goal_new 500 100 30)) = 37
   \<and> ship (goal_scene 37) = Some (Ship_new (500 + 37) 100)
   \<and> goal (goal_scene 37) = Some (Goal_new 500 100 30)
   \<and> Game_checkCollisions (goal_scene 37) = Inr (Game_gameWin (goal_scene 37))
   \<and> state (Game_gameWin (goal_scene 37)) = ENDED
   \<and> uiMessages_innerText (Game_gameWin (goal_scene 37)) = ''COURSE CLEAR!''
   \<and> Game_checkCollisions (goal_scene 37) \<noteq> Inr (goal_scene 37)"
proof -
  have s: "ship (goal_scene 37) = Some (Ship_new (500 + 37) 100)"
    and g: "goal (goal_scene 37) = Some (Goal_new 500 100 30)"
    by (simp_all add: goal_scene_def)
  have d: "Vector2_dist (ship_pos (Ship_new (500 + 37) 100)) (goal_pos (Goal_new 500 100 30)) = 37"
    using goal_scene_dist [of 37] by (simp add: Goal_new_def)
  have c: "Game_checkCollisions (goal_scene 37) = Inr (Game_gameWin (goal_scene 37))"
    unfolding Game_checkCollisions_eq [OF s g] d
    by (simp add: Let_def) (simp add: goal_scene_def Goal_new_def Ship_new_def sample_game_def)
  have w: "state (Game_gameWin (goal_scene 37)) = ENDED"
    "uiMessages_innerText (Game_gameWin (goal_scene 37)) = ''COURSE CLEAR!''"
    by (simp_all add: Game_gameWin_def)
  have n: "Game_gameWin (goal_scene 37) \<noteq> goal_scene 37"
  proof
    assume "Game_gameWin (goal_scene 37) = goal_scene 37"
    then have "state (Game_gameWin (goal_scene 37)) = state (goal_scene 37)" by simp
    then show False by (simp add: Game_gameWin_def goal_scene_def sample_game_def)
  qed
  from s g d c w n show ?thesis by simp
qed


theorem goal_detection_threshold_witness:
  "Game_checkCollisions (goal_scene 38) = Inr (goal_scene 38)
   \<and> Game_checkCollisions (goal_scene 37) = Inr (Game_gameWin (goal_scene 37))
   \<and> Game_checkCollisions (goal_scene 36) = Inr (Game_gameWin (goal_scene 36))"
proof -
  have h: "ship (goal_scene d) = Some (Ship_new (500 + d) 100)"
    "goal (goal_scene d) = Some (Goal_new 500 100 30)"
    "ship_radius (Ship_new (500 + d) 100) = 8"
    "goal_radius (Goal_new 500 100 30) = 30"
    "goal_pos (Goal_new 500 100 30) = Vector2_new 500 100"
    "\<forall>p\<in>set (planets (goal_scene d)).
       \<not> Vector2_dist (ship_pos (Ship_new (500 + d) 100)) (planet_pos p)
           < planet_radius p + ship_radius (Ship_new (500 + d) 100)"
    for d
    by (simp_all add: goal_scene_def Ship_new_def Goal_new_def)
  have b: "0 \<le> vx (ship_pos (Ship_new (500 + d) 100))"
    "vx (ship_pos (Ship_new (500 + d) 100)) \<le> canvas_width (goal_scene d)"
    "0 \<le> vy (ship_pos (Ship_new (500 + d) 100))"
    "vy (ship_pos (Ship_new (500 + d) 100)) \<le> canvas_height (goal_scene d)"
    if "0 \<le> d" "d \<le> 500" for d
    using that by (simp_all add: goal_scene_def Ship_new_def)
  have d: "Vector2_dist (ship_pos (Ship_new 538 100)) (Vector2_new 500 100) = 38"
    "Vector2_dist (ship_pos (Ship_new 537 100)) (Vector2_new 500 100) = 37"
    "Vector2_dist (ship_pos (Ship_new 536 100)) (Vector2_new 500 100) = 36"
    using goal_scene_dist [of 38] goal_scene_dist [of 37] goal_scene_dist [of 36] by simp_all
  show ?thesis
    using goal_detection_threshold [OF h b, of 38] goal_detection_threshold [OF h b, of 37]
      goal_detection_threshold [OF h b, of 36]
    by (simp add: d)
qed

text \<open>
  Claim C7. The out-of-bounds check is strict, with margin 0. A craft strictly outside
  \<open>[0, width] \<times> [0, height]\<close> always ends the mission with LOST IN SPACE. A craft
  inside, the boundary included, is never reported lost, and when it is within neither the
  goal's nor a planet's threshold the evaluation changes nothing (the mission continues).
\<close>

theorem out_of_bounds_strict:
  assumes "ship g = Some sh" and "goal g = Some gl"
  shows "(vx (ship_pos sh) < 0 \<or> canvas_width g < vx (ship_pos sh) \<or>
          vy (ship_pos sh) < 0 \<or> canvas_height g < vy (ship_pos sh) \<longrightarrow>
            (\<exists>g'. Game_checkCollisions g = Inr g' \<and> state g' = ENDED \<and>
                  uiMessages_innerText g' = ''LOST IN SPACE''))
       \<and> (0 \<le> vx (ship_pos sh) \<and> vx (ship_pos sh) \<le> canvas_width g \<and>
          0 \<le> vy (ship_pos sh) \<and> vy (ship_pos sh) \<le> canvas_height g \<longrightarrow>
            (\<exists>g'. Game_checkCollisions g = Inr g' \<and>
                  (g' = g \<or> uiMessages_innerText g' \<noteq> ''LOST IN SPACE'') \<and>
                  (\<not> Vector2_dist (ship_pos sh) (goal_pos gl) < goal_radius gl + ship_radius sh \<and>
                   (\<forall>p\<in>set (planets g).
                      \<not> Vector2_dist (ship_pos sh) (planet_pos p) < planet_radius p + ship_radius sh)
                   \<longrightarrow> g' = g)))"
proof (intro conjI impI)
  assume "vx (ship_pos sh) < 0 \<or> canvas_width g < vx (ship_pos sh) \<or>
          vy (ship_pos sh) < 0 \<or> canvas_height g < vy (ship_pos sh)"
  then show "\<exists>g'. Game_checkCollisions g = Inr g' \<and> state g' = ENDED \<and>
                  uiMessages_innerText g' = ''LOST IN SPACE''"
    by (simp add: Game_checkCollisions_eq [OF assms] Let_def Game_gameLoss_def)
next
  assume "0 \<le> vx (ship_pos sh) \<and> vx (ship_pos sh) \<le> canvas_width g \<and>
          0 \<le> vy (ship_pos sh) \<and> vy (ship_pos sh) \<le> canvas_height g"
  then have "\<not> (vx (ship_pos sh) < 0 \<or> canvas_width g < vx (ship_pos sh) \<or>
          vy (ship_pos sh) < 0 \<or> canvas_height g < vy (ship_pos sh))"
    by auto
  then show "\<exists>g'. Game_checkCollisions g = Inr g' \<and>
                  (g' = g \<or> uiMessages_innerText g' \<noteq> ''LOST IN SPACE'') \<and>
                  (\<not> Vector2_dist (ship_pos sh) (goal_pos gl) < goal_radius gl + ship_radius sh \<and>
                   (\<forall>p\<in>set (planets g).
                      \<not> Vector2_dist (ship_pos sh) (planet_pos p) < planet_radius p + ship_radius sh)
                   \<longrightarrow> g' = g)"
    by (simp add: Game_checkCollisions_eq [OF assms] Let_def Game_gameLoss_def Game_gameWin_def)
qed

theorem out_of_bounds_strict_witness:
  "Game_checkCollisions (bounds_scene 800 300) = Inr (bounds_scene 800 300)
   \<and> Game_checkCollisions (bounds_scene 0 0) = Inr (bounds_scene 0 0)
   \<and> Game_checkCollisions (bounds_scene 800 600) = Inr (bounds_scene 800 600)
   \<and> state (after (Game_checkCollisions (bounds_scene (800 + 0.001) 300))) = ENDED
   \<and> uiMessages_innerText (after (Game_checkCollisions (bounds_scene (800 + 0.001) 300)))
       = ''LOST IN SPACE''"
proof -
  have h: "ship (bounds_scene a b) = Some (Ship_new a b)"
    "goal (bounds_scene a b) = Some (Goal_new 700 100 30)" for a b
    by (simp_all add: bounds_scene_def sample_game_def)
  have v: "canvas_width (bounds_scene a b) = 800" "canvas_height (bounds_scene a b) = 600"
    "planets (bounds_scene a b) = [Planet_new 400 300 40 5000 300]"
    "ship_pos (Ship_new a b) = Vector2_new a b" "ship_radius (Ship_new a b) = 8"
    "goal_pos (Goal_new 700 100 30) = Vector2_new 700 100"
    "goal_radius (Goal_new 700 100 30) = 30"
    "planet_pos (Planet_new 400 300 40 5000 300) = Vector2_new 400 300"
    "planet_radius (Planet_new 400 300 40 5000 300) = 40" for a b
    by (simp_all add: bounds_scene_def sample_game_def Ship_new_def Goal_new_def Planet_new_def)
  show ?thesis
    using out_of_bounds_strict [OF h, of 800 300] out_of_bounds_strict [OF h, of 0 0]
      out_of_bounds_strict [OF h, of 800 600] out_of_bounds_strict [OF h, of "800 + 0.001" 300]
    by (auto simp add: v Vector2_dist_less_iff)
qed

text \<open>
  Claim C2, evaluated where it fails. In \<open>overlap_scene\<close> the craft at \<open>(175, 125)\<close> is
  within the goal's threshold and within the planet's. \<^verbatim>\<open>checkCollisions\<close> calls
  \<^verbatim>\<open>gameWin\<close> and then, having not returned, \<^verbatim>\<open>gameLoss\<close>: the message is CRASHED! in the
  colour of a loss, while the button still reads NEXT LEVEL.
\<close>

theorem checkCollisions_goal_and_planet:
  "ship overlap_scene = Some (Ship_new 175 125)
   \<and> goal overlap_scene = Some (Goal_new 200 100 30)
   \<and> planets overlap_scene = [Planet_new 150 150 40 5000 300]
   \<and> canvas_width overlap_scene = 300 \<and> canvas_height overlap_scene = 300
   \<and> Vector2_dist (Vector2_new 175 125) (Vector2_new 200 100) < 30 + 8
   \<and> Vector2_dist (Vector2_new 175 125) (Vector2_new 150 150) < 40 + 8
   \<and> Game_checkCollisions overlap_scene
       = Inr (Game_gameLoss ''CRASHED!'' (Game_gameWin overlap_scene))
   \<and> state (after (Game_checkCollisions overlap_scene)) = ENDED
   \<and> uiMessages_innerText (after (Game_checkCollisions overlap_scene)) = ''CRASHED!''
   \<and> uiMessages_color (after (Game_checkCollisions overlap_scene)) = ''#ef233c''
   \<and> retryBtn_innerText (after (Game_checkCollisions overlap_scene)) = ''NEXT LEVEL''
   \<and> retryBtn_onclick (after (Game_checkCollisions overlap_scene)) = Some Next_level"
proof -
  have n: "Game_new 300 300 [] [] [] = Inr (after (Game_new 300 300 [] [] []))"
    by (simp add: Game_new_def Game_initLevel_def builtin_levels_def level_1_def)
  have s: "ship overlap_scene = Some (Ship_new 175 125)"
    by (simp add: overlap_scene_def)
  have g: "goal overlap_scene = Some (Goal_new 200 100 30)"
    by (simp add: overlap_scene_def Game_new_def Game_initLevel_def builtin_levels_def level_1_def)
  have p: "planets overlap_scene = [Planet_new 150 150 40 5000 300]"
    by (simp add: overlap_scene_def Game_new_def Game_initLevel_def builtin_levels_def level_1_def)
  have c: "canvas_width overlap_scene = 300" "canvas_height overlap_scene = 300"
    by (simp_all add: overlap_scene_def Game_new_def Game_initLevel_def builtin_levels_def
        level_1_def)
  have d1: "Vector2_dist (Vector2_new 175 125) (Vector2_new 200 100) < 30 + 8"
    and d2: "Vector2_dist (Vector2_new 175 125) (Vector2_new 150 150) < 40 + 8"
    by (simp_all add: Vector2_dist_less_iff)
  have v: "ship_pos (Ship_new 175 125) = Vector2_new 175 125" "ship_radius (Ship_new 175 125) = 8"
    "goal_pos (Goal_new 200 100 30) = Vector2_new 200 100"
    "goal_radius (Goal_new 200 100 30) = 30"
    "planet_pos (Planet_new 150 150 40 5000 300) = Vector2_new 150 150"
    "planet_radius (Planet_new 150 150 40 5000 300) = 40"
    by (simp_all add: Ship_new_def Goal_new_def Planet_new_def)
  have e: "Game_checkCollisions overlap_scene
       = Inr (Game_gameLoss ''CRASHED!'' (Game_gameWin overlap_scene))"
    using d1 d2 by (simp add: Game_checkCollisions_eq [OF s g] p c v Let_def)
  have f: "state (after (Game_checkCollisions overlap_scene)) = ENDED"
    "uiMessages_innerText (after (Game_checkCollisions overlap_scene)) = ''CRASHED!''"
    "uiMessages_color (after (Game_checkCollisions overlap_scene)) = ''#ef233c''"
    "retryBtn_innerText (after (Game_checkCollisions overlap_scene)) = ''NEXT LEVEL''"
    "retryBtn_onclick (after (Game_checkCollisions overlap_scene)) = Some Next_level"
    by (simp_all add: e Game_gameLoss_def Game_gameWin_def)
  from s g p c d1 d2 e f show ?thesis by simp
qed

section \<open>Scene construction\<close>

text \<open>
  Claim C6, as amended. \<^verbatim>\<open>initLevel\<close> validates nothing: for every level the table
  holds, whatever its radii, gravity and influence radii, it returns normally, installs
  the configured craft position, planets and goal unchanged and sets the mission to IDLE.
  The three levels the program ships have positive radii, gravity and influence radii on a
  canvas of any size.
\<close>

theorem initLevel_installs_config:
  assumes "levels g n = Some level"
  shows "Game_initLevel n g =
           Inr (g\<lparr>state := IDLE,
                  uiMessages_hidden := True,
                  uiStage_innerText := n,
                  retryBtn_innerText := ''RETRY'',
                  retryBtn_onclick := Some Retry_level,
                  ship := Some (Ship_new (vx (cfg_ship (level (canvas_width g) (canvas_height g))))
                                  (vy (cfg_ship (level (canvas_width g) (canvas_height g))))),
                  planets := cfg_planets (level (canvas_width g) (canvas_height g)),
                  goal := Some (Goal_new
                            (vx (cfg_goal_pos (level (canvas_width g) (canvas_height g))))
                            (vy (cfg_goal_pos (level (canvas_width g) (canvas_height g))))
                            (cfg_goal_r (level (canvas_width g) (canvas_height g))))\<rparr>)
       \<and> (builtin_levels m = Some builtin \<longrightarrow>
            0 < cfg_goal_r (builtin w h) \<and>
            (\<forall>p\<in>set (cfg_planets (builtin w h)).
               0 < planet_radius p \<and> 0 < gravity p \<and> 0 < influenceRadius p))"
proof
  show "Game_initLevel n g =
           Inr (g\<lparr>state := IDLE,
                  uiMessages_hidden := True,
                  uiStage_innerText := n,
                  retryBtn_innerText := ''RETRY'',
                  retryBtn_onclick := Some Retry_level,
                  ship := Some (Ship_new (vx (cfg_ship (level (canvas_width g) (canvas_height g))))
                                  (vy (cfg_ship (level (canvas_width g) (canvas_height g))))),
                  planets := cfg_planets (level (canvas_width g) (canvas_height g)),
                  goal := Some (Goal_new
                            (vx (cfg_goal_pos (level (canvas_width g) (canvas_height g))))
                            (vy (cfg_goal_pos (level (canvas_width g) (canvas_height g))))
                            (cfg_goal_r (level (canvas_width g) (canvas_height g))))\<rparr>)"
    using assms by (simp add: Game_initLevel_def Let_def)
next
  show "builtin_levels m = Some builtin \<longrightarrow>
            0 < cfg_goal_r (builtin w h) \<and>
            (\<forall>p\<in>set (cfg_planets (builtin w h)).
               0 < planet_radius p \<and> 0 < gravity p \<and> 0 < influenceRadius p)"
    by (auto simp add: builtin_levels_def level_1_def level_2_def level_3_def Planet_new_def
        split: if_splits)
qed

text \<open>
  The non-physical level is accepted: \<^verbatim>\<open>initLevel\<close> returns with the planet of negative
  radius and gravity in \<^verbatim>\<open>this.planets\<close>.
\<close>

theorem initLevel_accepts_malformed_counterexample:
  "planet_radius (Planet_new 400 300 (- 40) (- 5000) 0) < 0
   \<and> gravity (Planet_new 400 300 (- 40) (- 5000) 0) < 0
   \<and> influenceRadius (Planet_new 400 300 (- 40) (- 5000) 0) \<le> 0
   \<and> Game_initLevel 1 malformed_game =
       Inr (malformed_game\<lparr>state := IDLE,
              uiMessages_hidden := True,
              uiStage_innerText := 1,
              retryBtn_innerText := ''RETRY'',
              retryBtn_onclick := Some Retry_level,
              ship := Some (Ship_new 100 500),
              planets := [Planet_new 400 300 (- 40) (- 5000) 0],
              goal := Some (Goal_new 700 100 (- 30))\<rparr>)"
  by (simp add: Game_initLevel_def malformed_game_def malformed_levels_def malformed_level_def
      sample_game_def Planet_new_def)

theorem initLevel_installs_config_witness:
  "levels malformed_game 1 = Some malformed_level
   \<and> planets (after (Game_initLevel 1 malformed_game)) = [Planet_new 400 300 (- 40) (- 5000) 0]
   \<and> state (after (Game_initLevel 1 malformed_game)) = IDLE
   \<and> builtin_levels 1 = Some level_1
   \<and> 0 < cfg_goal_r (level_1 800 600)
   \<and> cfg_planets (level_1 800 600) = [Planet_new 400 300 40 5000 300]
   \<and> 0 < planet_radius (Planet_new 400 300 40 5000 300)
   \<and> 0 < gravity (Planet_new 400 300 40 5000 300)
   \<and> 0 < influenceRadius (Planet_new 400 300 40 5000 300)"
proof -
  have l: "levels malformed_game 1 = Some malformed_level"
    by (simp add: malformed_game_def malformed_levels_def)
  have b: "builtin_levels 1 = Some level_1"
    by (simp add: builtin_levels_def)
  show ?thesis
    using initLevel_installs_config [OF l, of 1 level_1 800 600] l b
    by (simp add: malformed_level_def level_1_def)
      (simp add: malformed_game_def sample_game_def)
qed

section \<open>The mission state machine\<close>

lemma Game_initLevel_gate:
  "isDragging (after (Game_initLevel n g)) = isDragging g"
  "state (after (Game_initLevel n g)) = IDLE \<or> state (after (Game_initLevel n g)) = state g"
  by (simp_all add: Game_initLevel_def Let_def split: option.splits)

lemma launch_gate_initLevel: "launch_gate g \<Longrightarrow> launch_gate (after (Game_initLevel n g))"
  using Game_initLevel_gate [of n g] by (auto simp add: launch_gate_def)

lemma Game_checkCollisions_isDragging:
  "isDragging (after (Game_checkCollisions g)) = isDragging g"
proof (cases "ship g")
  case None
  then show ?thesis by (simp add: Game_checkCollisions_def)
next
  case (Some sh)
  show ?thesis
  proof (cases "goal g")
    case None
    with Some show ?thesis by (simp add: Game_checkCollisions_def)
  next
    case (Some gl)
    show ?thesis
      by (simp add: Game_checkCollisions_eq [OF \<open>ship g = Some sh\<close> Some] Let_def
          Game_gameWin_def Game_gameLoss_def)
  qed
qed

lemma Game_update_not_flying:
  "state g \<noteq> FLYING \<Longrightarrow> Game_update dt g = Inr (g\<lparr>frameCount := frameCount g + 1\<rparr>)"
  by (simp add: Game_update_def Let_def)

lemma launch_gate_update: "launch_gate g \<Longrightarrow> launch_gate (after (Game_update dt g))"
proof (cases "state g = FLYING")
  case False
  assume "launch_gate g"
  with False show ?thesis by (simp add: Game_update_not_flying launch_gate_def)
next
  case True
  assume "launch_gate g"
  with True have nd: "\<not> isDragging g" by (auto simp add: launch_gate_def)
  have "isDragging (after (Game_update dt g)) = isDragging g"
    using True
    by (cases "ship g") (simp_all add: Game_update_def Let_def Game_checkCollisions_isDragging)
  with nd show ?thesis by (simp add: launch_gate_def)
qed

lemma Game_draw_gate:
  "isDragging (after (Game_draw g)) = isDragging g" "state (after (Game_draw g)) = state g"
  "ship (after (Game_draw g)) = ship g"
  by (simp_all add: Game_draw_def Let_def split: option.splits)

lemma launch_gate_loop: "launch_gate g \<Longrightarrow> launch_gate (after (Game_loop t g))"
proof -
  assume g: "launch_gate g"
  let ?g1 = "g\<lparr>lastTime := t\<rparr>"
  let ?dt = "(t - lastTime g) / 1000"
  from g have g1: "launch_gate ?g1" by (simp add: launch_gate_def)
  show ?thesis
  proof (cases "Game_update ?dt ?g1")
    case (Inl e)
    then have "after (Game_loop t g) = after (Game_update ?dt ?g1)"
      by (simp add: Game_loop_def Let_def)
    with launch_gate_update [OF g1, of ?dt] show ?thesis by simp
  next
    case (Inr g2)
    then have l: "after (Game_loop t g) = after (Game_draw g2)"
      by (simp add: Game_loop_def Let_def)
    from launch_gate_update [OF g1, of ?dt] Inr have "launch_gate g2" by simp
    then show ?thesis by (simp add: l launch_gate_def Game_draw_gate)
  qed
qed

lemma launch_gate_onMouseUp: "launch_gate (after (Game_onMouseUp g))"
  by (simp add: Game_onMouseUp_def launch_gate_def Let_def split: option.splits)

lemma launch_gate_new: "Game_new w h a b c = Inr g \<Longrightarrow> launch_gate g"
  by (auto simp add: Game_new_def Game_initLevel_def Let_def launch_gate_def builtin_levels_def
      split: option.splits sum.splits if_splits)

text \<open>Every handler keeps the invariant, so it holds in every reachable game.\<close>

lemma reachable_launch_gate: "reachable g \<Longrightarrow> launch_gate g"
proof (induction rule: reachable.induct)
  case (constructed w h msgText msgColor btnText g)
  then show ?case by (rule launch_gate_new)
next
  case (resized g w h)
  then show ?case by (simp add: launch_gate_def Game_resize_def)
next
  case (mouse_down g e)
  then show ?case by (simp add: launch_gate_def Game_onMouseDown_def Let_def)
next
  case (mouse_move g e)
  then show ?case by (simp add: launch_gate_def Game_onMouseMove_def)
next
  case (mouse_up g)
  show ?case by (rule launch_gate_onMouseUp)
next
  case (frame g timestamp)
  then show ?case by (simp add: launch_gate_loop)
next
  case (retry_click g)
  then show ?case by (simp add: retryBtn_click_def launch_gate_initLevel)
next
  case (retry_onclick g)
  then show ?case
    by (cases "retryBtn_onclick g")
      (auto simp add: retryBtn_onclick_call_def Let_def launch_gate_def
        intro!: launch_gate_initLevel [unfolded launch_gate_def, rule_format]
        split: click_handler.splits)
qed

text \<open>
  Claim C8. While the mission is IDLE or ENDED a tick (\<^verbatim>\<open>update\<close>, and the whole frame
  \<^verbatim>\<open>loop\<close>) only advances the frame counter: the craft, with its position and velocity,
  and the mission state are unchanged. In every game the program can reach, a launch
  input that arrives while the mission is FLYING or ENDED (mouse down, mouse move,
  mouse up) changes nothing at all.
\<close>

theorem physics_and_launch_gating:
  "(state g \<noteq> FLYING \<longrightarrow>
      Game_update dt g = Inr (g\<lparr>frameCount := frameCount g + 1\<rparr>)
      \<and> ship (after (Game_update dt g)) = ship g
      \<and> state (after (Game_update dt g)) = state g
      \<and> ship (after (Game_loop t g)) = ship g
      \<and> state (after (Game_loop t g)) = state g)
   \<and> (reachable g \<and> state g \<noteq> IDLE \<longrightarrow>
      Game_onMouseDown e g = g \<and> Game_onMouseMove e g = g \<and> Game_onMouseUp g = Inr g)"
proof (intro conjI impI)
  assume nf: "state g \<noteq> FLYING"
  then show u: "Game_update dt g = Inr (g\<lparr>frameCount := frameCount g + 1\<rparr>)"
    by (rule Game_update_not_flying)
  show "ship (after (Game_update dt g)) = ship g" "state (after (Game_update dt g)) = state g"
    by (simp_all add: u)
  have "Game_loop t g = Game_draw (g\<lparr>lastTime := t, frameCount := frameCount g + 1\<rparr>)"
    using nf by (simp add: Game_loop_def Let_def Game_update_not_flying)
  then show "ship (after (Game_loop t g)) = ship g" "state (after (Game_loop t g)) = state g"
    by (simp_all add: Game_draw_gate)
next
  assume r: "reachable g \<and> state g \<noteq> IDLE"
  then have "launch_gate g" by (simp add: reachable_launch_gate)
  with r have nd: "\<not> isDragging g" by (auto simp add: launch_gate_def)
  from r show "Game_onMouseDown e g = g" by (simp add: Game_onMouseDown_def)
  from nd show "Game_onMouseMove e g = g" by (simp add: Game_onMouseMove_def)
  from nd show "Game_onMouseUp g = Inr g" by (simp add: Game_onMouseUp_def)
qed


lemma Vector2_mag_less_iff:
  "Vector2_mag v < r \<longleftrightarrow> 0 < r \<and> (vx v)\<^sup>2 + (vy v)\<^sup>2 < r\<^sup>2"
  using Vector2_dist_less_iff [of v "Vector2_new 0 0" r]
  by (simp add: Vector2_dist_def Vector2_sub_def)

lemma start_game_eq: "Game_new 800 600 [] [] [] = Inr start_game"
  by (simp add: start_game_def Game_new_def Game_initLevel_def builtin_levels_def Let_def)

lemma start_game_fields:
  "state start_game = IDLE" "ship start_game = Some (Ship_new 100 500)"
  "planets start_game = [Planet_new 400 300 40 5000 300]"
  "goal start_game = Some (Goal_new 700 100 30)"
  "frameCount start_game = 0" "lastTime start_game = 0"
  "isDragging start_game = False"
  by (simp_all add: start_game_def Game_new_def Game_initLevel_def builtin_levels_def Let_def
      level_1_def)

lemma launched_game_eq:
  "launched_game =
     start_game\<lparr>isDragging := False,
                dragStart := Some (Vector2_new 100 300), dragCurrent := Some (Vector2_new 700 300),
                ship := Some ((Ship_new 100 500)\<lparr>ship_vel := Vector2_new (- 180) 0\<rparr>),
                state := FLYING\<rparr>"
  by (simp add: launched_game_def start_game_fields Game_onMouseDown_def Game_onMouseMove_def
      Game_onMouseUp_def Game_getMousePos_def press_def release_def Let_def Vector2_sub_def
      Vector2_mult_def)

lemma Game_checkCollisions_returns:
  "ship g = Some sh \<Longrightarrow> goal g = Some gl \<Longrightarrow>
     Game_checkCollisions g = Inr (after (Game_checkCollisions g))"
  by (simp add: Game_checkCollisions_def Let_def)

lemma lost_game_state: "state lost_game = ENDED"
proof -
  let ?s = "(Ship_new 100 500)\<lparr>ship_vel := Vector2_new (- 180) 0\<rparr>"
  let ?B = "[Planet_new 400 300 40 5000 300]"
  let ?s1 = "Ship_update (Suc 0) 1 ?B ?s"
  let ?g2 = "launched_game\<lparr>lastTime := 50, frameCount := Suc 0, ship := Some ?s1\<rparr>"
  have sp: "ship_pos ?s = Vector2_new 100 500" "ship_vel ?s = Vector2_new (- 180) 0"
    by (simp_all add: Ship_new_def)
  have a: "drawTrajectory_gravity ?B (Vector2_new 100 500) (Vector2_new 0 0) = Vector2_new 0 0"
    by (simp add: Let_def Planet_new_def Vector2_sub_def Vector2_mag_less_iff)
  have v: "ship_vel ?s1 = Vector2_new (- 180) 0"
    by (simp only: Ship_update_pos_vel(1) sp a) (simp add: Vector2_add_def Vector2_mult_def)
  have p: "ship_pos ?s1 = Vector2_new (- 80) 500"
    by (simp only: Ship_update_pos_vel(2) sp v) (simp add: Vector2_add_def Vector2_mult_def)
  have u: "Game_update ((50 - lastTime launched_game) / 1000) (launched_game\<lparr>lastTime := 50\<rparr>)
             = Game_checkCollisions ?g2"
    by (simp add: Game_update_def Let_def launched_game_eq start_game_fields)
  have s2: "ship ?g2 = Some ?s1" and g2: "goal ?g2 = Some (Goal_new 700 100 30)"
    by (simp_all add: launched_game_eq start_game_fields)
  have e: "state (after (Game_checkCollisions ?g2)) = ENDED"
    by (subst Game_checkCollisions_eq [OF s2 g2]) (simp add: p Let_def Game_gameLoss_def)
  have "Game_loop 50 launched_game = Game_draw (after (Game_checkCollisions ?g2))"
    unfolding Game_loop_def Let_def u
    by (subst Game_checkCollisions_returns [OF s2 g2]) simp
  then show ?thesis
    by (simp add: lost_game_def Game_draw_gate e)
qed

theorem physics_and_launch_gating_witness:
  "reachable lost_game \<and> state lost_game = ENDED
   \<and> Game_update (1 / 60) lost_game = Inr (lost_game\<lparr>frameCount := frameCount lost_game + 1\<rparr>)
   \<and> ship (after (Game_loop 100 lost_game)) = ship lost_game
   \<and> state (after (Game_loop 100 lost_game)) = ENDED
   \<and> Game_onMouseDown press lost_game = lost_game
   \<and> Game_onMouseMove release lost_game = lost_game
   \<and> Game_onMouseUp lost_game = Inr lost_game
   \<and> reachable launched_game \<and> state launched_game = FLYING
   \<and> Game_onMouseDown press launched_game = launched_game
   \<and> Game_onMouseUp launched_game = Inr launched_game"
proof -
  have r0: "reachable start_game"
    by (rule reachable.constructed [OF start_game_eq])
  have r1: "reachable launched_game"
    unfolding launched_game_def
    by (intro reachable.mouse_up reachable.mouse_move reachable.mouse_down r0)
  have r2: "reachable lost_game"
    unfolding lost_game_def by (rule reachable.frame [OF r1])
  have f: "state launched_game = FLYING"
    by (simp add: launched_game_eq)
  show ?thesis
    using physics_and_launch_gating [of lost_game "1 / 60" 100 press]
      physics_and_launch_gating [of lost_game "1 / 60" 100 release]
      physics_and_launch_gating [of launched_game "1 / 60" 100 press]
      r1 r2 f lost_game_state
    by simp
qed

section \<open>The trajectory preview\<close>

lemma drawTrajectory_loop_live:
  "snd (drawTrajectory_loop N dt B (ship_pos S, ship_vel S, a0) ctx)
     = ctx @ map (\<lambda>p. LineTo (vx p) (vy p)) (live_positions N fc dt B S)"
proof (induction N arbitrary: S a0 fc ctx)
  case 0
  show ?case by simp
next
  case (Suc N)
  let ?S1 = "Ship_update fc dt B S"
  have "snd (drawTrajectory_loop (Suc N) dt B (ship_pos S, ship_vel S, a0) ctx)
      = snd (drawTrajectory_loop N dt B (ship_pos ?S1, ship_vel ?S1, ship_acc ?S1)
               (ctx @ [LineTo (vx (ship_pos ?S1)) (vy (ship_pos ?S1))]))"
    by (simp add: Let_def Ship_update_pos_vel)
  then show ?case
    by (simp add: Suc.IH [of ?S1 _ _ "Suc fc"] Let_def)
qed

lemma length_live_positions: "length (live_positions N fc dt B S) = N"
  by (induction N arbitrary: fc S) (simp_all add: Let_def)

text \<open>The physics of the prediction never reads a planet's radius.\<close>

lemma drawTrajectory_gravity_radius:
  "drawTrajectory_gravity (map (\<lambda>p. p\<lparr>planet_radius := r p\<rparr>) B) simPos simAcc
     = drawTrajectory_gravity B simPos simAcc"
  by (induction B arbitrary: simAcc) (simp_all add: Let_def)

lemma drawTrajectory_loop_radius:
  "drawTrajectory_loop n dt (map (\<lambda>p. p\<lparr>planet_radius := r p\<rparr>) B) sim ctx
     = drawTrajectory_loop n dt B sim ctx"
proof (induction n arbitrary: sim ctx)
  case 0
  show ?case by simp
next
  case (Suc n)
  obtain p v a where sim: "sim = (p, v, a)" by (cases sim) auto
  show ?case
    unfolding sim by (simp add: Let_def drawTrajectory_gravity_radius Suc.IH)
qed

text \<open>
  Claim C10. Whenever a drag is in progress, \<^verbatim>\<open>drawTrajectory\<close> issues, between the
  opening of the dashed path and its stroke, exactly 100 \<^verbatim>\<open>lineTo\<close> calls: the positions
  of 100 simulation steps with step 1 from the launch state, whatever the planets. The
  scan for a future collision shortens nothing and records nothing: the planets' radii,
  which only that scan reads, do not influence the commands issued.
\<close>

theorem trajectory_preview_full:
  assumes "dragStart g = Some ds" and "dragCurrent g = Some dc" and "ship g = Some sh"
  shows "Game_drawTrajectory g =
           Inr ([BeginPath, MoveTo (vx (ship_pos sh)) (vy (ship_pos sh)),
                 StrokeStyle ''rgba(255, 255, 255, 0.5)'', SetLineDash [5, 5]]
                @ map (\<lambda>p. LineTo (vx p) (vy p))
                    (live_positions 100 fc 1 (planets g)
                       (sh\<lparr>ship_vel := Vector2_mult (Vector2_sub ds dc) (0.1 * 3)\<rparr>))
                @ [Stroke, SetLineDash [],
                   BeginPath, MoveTo (vx (ship_pos sh)) (vy (ship_pos sh)),
                   LineTo (vx (ship_pos sh) - vx (Vector2_sub ds dc))
                          (vy (ship_pos sh) - vy (Vector2_sub ds dc)),
                   StrokeStyle ''#fca311'', Stroke])
       \<and> length (live_positions 100 fc 1 (planets g)
                   (sh\<lparr>ship_vel := Vector2_mult (Vector2_sub ds dc) (0.1 * 3)\<rparr>)) = 100
       \<and> Game_drawTrajectory (g\<lparr>planets := map (\<lambda>p. p\<lparr>planet_radius := r p\<rparr>) (planets g)\<rparr>)
           = Game_drawTrajectory g"
proof (intro conjI)
  let ?S = "sh\<lparr>ship_vel := Vector2_mult (Vector2_sub ds dc) (0.1 * 3)\<rparr>"
  have c: "Vector2_copy v = v" for v
    by (simp add: Vector2_copy_def)
  have l: "snd (drawTrajectory_loop 100 1 (planets g) (ship_pos ?S, ship_vel ?S, Vector2_new 0 0) ctx)
      = ctx @ map (\<lambda>p. LineTo (vx p) (vy p)) (live_positions 100 fc 1 (planets g) ?S)" for ctx
    by (rule drawTrajectory_loop_live)
  show "Game_drawTrajectory g =
           Inr ([BeginPath, MoveTo (vx (ship_pos sh)) (vy (ship_pos sh)),
                 StrokeStyle ''rgba(255, 255, 255, 0.5)'', SetLineDash [5, 5]]
                @ map (\<lambda>p. LineTo (vx p) (vy p)) (live_positions 100 fc 1 (planets g) ?S)
                @ [Stroke, SetLineDash [],
                   BeginPath, MoveTo (vx (ship_pos sh)) (vy (ship_pos sh)),
                   LineTo (vx (ship_pos sh) - vx (Vector2_sub ds dc))
                          (vy (ship_pos sh) - vy (Vector2_sub ds dc)),
                   StrokeStyle ''#fca311'', Stroke])"
    using assms l by (simp add: Game_drawTrajectory_def Let_def c)
  show "length (live_positions 100 fc 1 (planets g) ?S) = 100"
    by (rule length_live_positions)
  show "Game_drawTrajectory (g\<lparr>planets := map (\<lambda>p. p\<lparr>planet_radius := r p\<rparr>) (planets g)\<rparr>)
           = Game_drawTrajectory g"
    using assms by (simp add: Game_drawTrajectory_def Let_def drawTrajectory_loop_radius)
qed


lemma live_positions_still:
  "ship_vel S = Vector2_new 0 0 \<Longrightarrow>
     live_positions N fc 1 [Planet_new a b r 0 ir] S = replicate N (ship_pos S)"
proof (induction N arbitrary: S fc)
  case 0
  show ?case by simp
next
  case (Suc N)
  let ?S1 = "Ship_update fc 1 [Planet_new a b r 0 ir] S"
  have g: "drawTrajectory_gravity [Planet_new a b r 0 ir] (ship_pos S) (Vector2_new 0 0)
             = Vector2_new 0 0"
    by (simp add: Let_def Planet_new_def Vector2_mult_def Vector2_add_def)
  have v: "ship_vel ?S1 = Vector2_new 0 0"
    by (simp only: Ship_update_pos_vel(1) g Suc.prems) (simp add: Vector2_add_def Vector2_mult_def)
  have p: "ship_pos ?S1 = ship_pos S"
    by (simp only: Ship_update_pos_vel(2) v) (simp add: Vector2_add_def Vector2_mult_def)
  show ?case
    by (simp add: Let_def Suc.IH [OF v] p)
qed

text \<open>
  In \<open>aiming_game\<close> the scan leaves by its \<^verbatim>\<open>break\<close> at every step, and the preview still
  has its 100 points.
\<close>

theorem trajectory_preview_full_witness:
  "dragStart aiming_game = Some (Vector2_new 300 300)
   \<and> dragCurrent aiming_game = Some (Vector2_new 300 300)
   \<and> ship aiming_game = Some (Ship_new 100 500)
   \<and> drawTrajectory_scan (planets aiming_game) (Vector2_new 100 500)
   \<and> Game_drawTrajectory aiming_game =
       Inr ([BeginPath, MoveTo 100 500, StrokeStyle ''rgba(255, 255, 255, 0.5)'',
             SetLineDash [5, 5]]
            @ map (\<lambda>p. LineTo (vx p) (vy p)) (replicate 100 (Vector2_new 100 500))
            @ [Stroke, SetLineDash [], BeginPath, MoveTo 100 500, LineTo 100 500,
               StrokeStyle ''#fca311'', Stroke])
   \<and> length (replicate 100 (Vector2_new 100 500)) = 100
   \<and> Game_drawTrajectory (aiming_game\<lparr>planets := [Planet_new 100 500 1 0 300]\<rparr>)
       = Game_drawTrajectory aiming_game"
proof -
  have h: "dragStart aiming_game = Some (Vector2_new 300 300)"
    "dragCurrent aiming_game = Some (Vector2_new 300 300)"
    "ship aiming_game = Some (Ship_new 100 500)"
    by (simp_all add: aiming_game_def sample_game_def)
  have p: "planets aiming_game = [Planet_new 100 500 1000 0 300]"
    by (simp add: aiming_game_def)
  have s: "drawTrajectory_scan [Planet_new 100 500 1000 0 300] (Vector2_new 100 500)"
    by (simp add: Planet_new_def Vector2_dist_less_iff)
  have v: "(Ship_new 100 500)\<lparr>ship_vel :=
              Vector2_mult (Vector2_sub (Vector2_new 300 300) (Vector2_new 300 300)) (0.1 * 3)\<rparr>
            = Ship_new 100 500"
    by (simp add: Ship_new_def Vector2_sub_def Vector2_mult_def)
  have q: "map (\<lambda>p. p\<lparr>planet_radius := 1\<rparr>) [Planet_new 100 500 1000 0 300]
            = [Planet_new 100 500 1 0 300]"
    by (simp add: Planet_new_def)
  have l: "live_positions 100 0 1 [Planet_new 100 500 1000 0 300] (Ship_new 100 500)
            = replicate 100 (Vector2_new 100 500)"
    by (simp add: live_positions_still Ship_new_def)
  show ?thesis
    using trajectory_preview_full [OF h, of 0 "\<lambda>p. 1"] h s
    by (simp only: p v q l) (simp add: Ship_new_def Vector2_sub_def)
qed

end
